theory Spec2Isabelle
  imports Main "HOL-Library.Word"
begin

section \<open>The project-creation screen of banana-slides (frontend/src/pages/Home.tsx)\<close>

text \<open>
  The screen is a React component. Its six \<open>useState\<close> cells are the fields of the
  record \<open>home\<close>; every handler is a function from the state it closes over to the
  state after its \<open>set...\<close> calls, together with the effects it performs in order
  (toasts, navigation, console output and the calls to the collaborators). The
  collaborators (\<open>api\<close>, \<open>fetch\<close>, \<open>getImageUrl\<close>, \<open>initializeProject\<close>) are not
  part of the file; they are the fields of the record \<open>env\<close> and every theorem holds
  for all of them. A handler runs from its call to its last \<open>await\<close> without another
  handler in between.
\<close>

subsection \<open>JavaScript strings\<close>

text \<open>
  A JavaScript string is a sequence of UTF-16 code units. \<open>lit\<close> embeds an ASCII
  literal of the source; the Chinese literals are written as their code units.
\<close>

type_synonym js_string = "16 word list"

definition lit :: "string \<Rightarrow> js_string" where
  "lit s = map (\<lambda>c. of_nat (of_char c)) s"

text \<open>
  \<open>String.prototype.trim\<close> removes the code units of WhiteSpace and LineTerminator
  (ECMAScript 2023, 22.1.3.32) from both ends: TAB, LF, VT, FF, CR, SPACE, NBSP,
  U+1680, U+2000 to U+200A, U+2028, U+2029, U+202F, U+205F, U+3000 and U+FEFF.
\<close>

definition is_white_space :: "16 word \<Rightarrow> bool" where
  "is_white_space c =
     (c \<in> {9, 10, 11, 12, 13, 32, 160, 5760, 8232, 8233, 8239, 8287, 12288, 65279}
      \<or> (8192 \<le> c \<and> c \<le> 8202))"

definition trimStart :: "js_string \<Rightarrow> js_string" where
  "trimStart s = dropWhile is_white_space s"

definition trimEnd :: "js_string \<Rightarrow> js_string" where
  "trimEnd s = rev (dropWhile is_white_space (rev s))"

definition trim :: "js_string \<Rightarrow> js_string" where
  "trim s = trimEnd (trimStart s)"

text \<open>
  Truthiness of a value of type \<open>string | null\<close>: \<open>null\<close> and the empty string are
  falsy, every other string is truthy.
\<close>

definition truthy_str :: "js_string \<Rightarrow> bool" where
  "truthy_str s = (s \<noteq> [])"

fun truthy :: "js_string option \<Rightarrow> bool" where
  "truthy None = False"
| "truthy (Some s) = truthy_str s"

subsection \<open>Data\<close>

datatype creation_type = Idea | Outline | Description

text \<open>\<open>UserTemplate\<close> of \<open>@/api/endpoints\<close>, with the three fields the screen reads.\<close>

record user_template =
  template_id :: js_string
  name :: "js_string option"
  template_image_url :: js_string

record js_blob =
  blob_bytes :: "8 word list"
  blob_type :: js_string

text \<open>A \<open>File\<close> is a \<open>Blob\<close> with a name.\<close>

record js_file = js_blob +
  file_name :: js_string

datatype js_error = JsError (message: "js_string option")

text \<open>The result of \<open>fetch\<close>: \<open>response.blob()\<close> resolves to a blob or rejects.\<close>

datatype response = Response (blob: "js_error + js_blob")

type_synonym storage = "js_string \<rightharpoonup> js_string"

datatype toast_type = Success | Error

record toast =
  toast_message :: js_string
  toast_type :: toast_type

text \<open>What a handler does to the outside, in the order of the source.\<close>

datatype event =
    ListUserTemplates
  | UploadUserTemplate js_file
  | Fetch js_string
  | InitializeProject creation_type js_string "js_file option"
  | Show toast
  | Navigate js_string
  | ConsoleError js_string js_error
  | ConsoleWarn js_string js_error

text \<open>
  The collaborators. A call that throws (a promise that rejects) is \<open>Inl\<close>.
  \<open>listUserTemplates\<close> gives \<open>response.data?.templates\<close>, \<open>uploadUserTemplate\<close>
  gives \<open>response.data\<close>; \<open>initializeProject\<close> of the project store writes the
  new project id to \<open>localStorage\<close>, so it takes the storage and returns it.
\<close>

record env =
  listUserTemplates :: "js_error + user_template list option"
  uploadUserTemplate :: "js_file \<Rightarrow> js_error + user_template option"
  getImageUrl :: "js_string \<Rightarrow> js_string"
  fetch :: "js_string \<Rightarrow> js_error + response"
  initializeProject ::
    "creation_type \<Rightarrow> js_string \<Rightarrow> js_file option \<Rightarrow> storage \<Rightarrow> (js_error + unit) \<times> storage"

text \<open>The state of the component (lines 23 to 28) and its initial value.\<close>

record home =
  activeTab :: creation_type
  content :: js_string
  selectedTemplate :: "js_file option"
  selectedTemplateId :: "js_string option"
  userTemplates :: "user_template list"
  isLoadingTemplates :: bool

definition initial :: home where
  "initial = \<lparr>activeTab = Idea, content = [], selectedTemplate = None,
     selectedTemplateId = None, userTemplates = [], isLoadingTemplates = False\<rparr>"

subsection \<open>The literals of the source\<close>

definition msg_enter_content :: js_string where
  "msg_enter_content = [35831, 36755, 20837, 20869, 23481]"

definition msg_upload_ok :: js_string where
  "msg_upload_ok = [27169, 26495, 19978, 20256, 25104, 21151]"

definition msg_upload_failed :: js_string where
  "msg_upload_failed = [27169, 26495, 19978, 20256, 22833, 36133, 58, 32]"

definition msg_unknown_error :: js_string where
  "msg_unknown_error = [26410, 30693, 38169, 35823]"

definition msg_create_failed :: js_string where
  "msg_create_failed = [39033, 30446, 21019, 24314, 22833, 36133]"

definition log_load_failed :: js_string where
  "log_load_failed = [21152, 36733, 29992, 25143, 27169, 26495, 22833, 36133, 58]"

definition log_upload_failed :: js_string where
  "log_upload_failed = [19978, 20256, 27169, 26495, 22833, 36133, 58]"

definition log_fetch_failed :: js_string where
  "log_fetch_failed = [33719, 21462, 27169, 26495, 25991, 20214, 22833, 36133, 58]"

definition log_create_failed :: js_string where
  "log_create_failed = [21019, 24314, 39033, 30446, 22833, 36133, 58]"

subsection \<open>The handlers\<close>

text \<open>
  \<open>loadUserTemplates\<close> (lines 56 to 69). The flag set at line 57 is reset by the
  \<open>finally\<close> at line 67 on every path.
\<close>

definition loadUserTemplates :: "env \<Rightarrow> home \<Rightarrow> home \<times> event list" where
  "loadUserTemplates e s =
     (case listUserTemplates e of
        Inl err \<Rightarrow>
          (s\<lparr>isLoadingTemplates := False\<rparr>,
           [ListUserTemplates, ConsoleError log_load_failed err])
      | Inr None \<Rightarrow> (s\<lparr>isLoadingTemplates := False\<rparr>, [ListUserTemplates])
      | Inr (Some ts) \<Rightarrow>
          (s\<lparr>userTemplates := ts, isLoadingTemplates := False\<rparr>, [ListUserTemplates]))"

text \<open>
  \<open>handleTemplateUpload\<close> (lines 71 to 89); the argument is \<open>e.target.files?.[0]\<close>.
\<close>

definition handleTemplateUpload :: "env \<Rightarrow> js_file option \<Rightarrow> home \<Rightarrow> home \<times> event list" where
  "handleTemplateUpload e file s =
     (case file of
        None \<Rightarrow> (s, [])
      | Some f \<Rightarrow>
          (case uploadUserTemplate e f of
             Inl err \<Rightarrow>
               (s, [UploadUserTemplate f, ConsoleError log_upload_failed err,
                    Show \<lparr>toast_message = msg_upload_failed @
                             (if truthy (message err) then the (message err)
                              else msg_unknown_error),
                          toast_type = Error\<rparr>])
           | Inr None \<Rightarrow> (s, [UploadUserTemplate f])
           | Inr (Some template) \<Rightarrow>
               (s\<lparr>userTemplates := template # userTemplates s,
                  selectedTemplateId := Some (template_id template),
                  selectedTemplate := None\<rparr>,
                [UploadUserTemplate f,
                 Show \<lparr>toast_message = msg_upload_ok, toast_type = Success\<rparr>])))"

text \<open>\<open>handleSelectUserTemplate\<close> (lines 91 to 94).\<close>

definition handleSelectUserTemplate :: "user_template \<Rightarrow> home \<Rightarrow> home" where
  "handleSelectUserTemplate template s =
     s\<lparr>selectedTemplateId := Some (template_id template), selectedTemplate := None\<rparr>"

text \<open>\<open>handleRemoveTemplate\<close> (lines 96 to 99).\<close>

definition handleRemoveTemplate :: "home \<Rightarrow> home" where
  "handleRemoveTemplate s = s\<lparr>selectedTemplateId := None, selectedTemplate := None\<rparr>"

text \<open>
  The inner \<open>try\<close> of \<open>handleSubmit\<close> (lines 117 to 127), entered with the selected
  id: the file built from the saved template and the effects of building it. Every
  failure is caught at line 125 and leaves \<open>templateFile\<close> undefined.
\<close>

definition fetchTemplateFile ::
  "env \<Rightarrow> user_template list \<Rightarrow> js_string \<Rightarrow> js_file option \<times> event list" where
  "fetchTemplateFile e ts tid =
     (case find (\<lambda>t. template_id t = tid) ts of
        None \<Rightarrow> (None, [])
      | Some template \<Rightarrow>
          (let imageUrl = getImageUrl e (template_image_url template) in
           case fetch e imageUrl of
             Inl err \<Rightarrow> (None, [Fetch imageUrl, ConsoleWarn log_fetch_failed err])
           | Inr resp \<Rightarrow>
               (case blob resp of
                  Inl err \<Rightarrow> (None, [Fetch imageUrl, ConsoleWarn log_fetch_failed err])
                | Inr b \<Rightarrow>
                    (Some \<lparr>blob_bytes = blob_bytes b, blob_type = blob_type b,
                           file_name = lit ''template.png''\<rparr>,
                     [Fetch imageUrl]))))"

text \<open>
  Lines 109 to 128: \<open>templateFile\<close> as it stands before the call of line 130. A
  \<open>File\<close> object is truthy, so \<open>selectedTemplate || undefined\<close> is the selection.
\<close>

definition templateFile :: "env \<Rightarrow> home \<Rightarrow> js_file option \<times> event list" where
  "templateFile e s =
     (if truthy (selectedTemplateId s) \<and> selectedTemplate s = None
      then fetchTemplateFile e (userTemplates s) (the (selectedTemplateId s))
      else (selectedTemplate s, []))"

text \<open>
  \<open>handleSubmit\<close> (lines 101 to 148). It sets no state of the component; the result
  is its effects and \<open>localStorage\<close> after it.
\<close>

definition handleSubmit :: "env \<Rightarrow> home \<Rightarrow> storage \<Rightarrow> event list \<times> storage" where
  "handleSubmit e s st =
     (if \<not> truthy_str (trim (content s))
      then ([Show \<lparr>toast_message = msg_enter_content, toast_type = Error\<rparr>], st)
      else
        (let (file, evs) = templateFile e s;
             call = InitializeProject (activeTab s) (content s) file
         in case initializeProject e (activeTab s) (content s) file st of
              (Inl err, st') \<Rightarrow> (evs @ [call, ConsoleError log_create_failed err], st')
            | (Inr _, st') \<Rightarrow>
                (let projectId = st' (lit ''currentProjectId'') in
                 if \<not> truthy projectId
                 then (evs @ [call,
                         Show \<lparr>toast_message = msg_create_failed, toast_type = Error\<rparr>], st')
                 else if activeTab s = Idea \<or> activeTab s = Outline
                 then (evs @ [call,
                         Navigate (lit ''/project/'' @ the projectId @ lit ''/outline'')], st')
                 else (evs @ [call,
                         Navigate (lit ''/project/'' @ the projectId @ lit ''/detail'')], st'))))"

subsection \<open>Reading a run\<close>

text \<open>The routes navigated to, the toasts shown, the calls of the project store and
  the fetches, each in order.\<close>

fun navigations :: "event list \<Rightarrow> js_string list" where
  "navigations [] = []"
| "navigations (Navigate p # evs) = p # navigations evs"
| "navigations (_ # evs) = navigations evs"

fun toasts :: "event list \<Rightarrow> toast list" where
  "toasts [] = []"
| "toasts (Show t # evs) = t # toasts evs"
| "toasts (_ # evs) = toasts evs"

fun project_calls :: "event list \<Rightarrow> (creation_type \<times> js_string \<times> js_file option) list" where
  "project_calls [] = []"
| "project_calls (InitializeProject t c f # evs) = (t, c, f) # project_calls evs"
| "project_calls (_ # evs) = project_calls evs"

fun fetches :: "event list \<Rightarrow> js_string list" where
  "fetches [] = []"
| "fetches (Fetch u # evs) = u # fetches evs"
| "fetches (_ # evs) = fetches evs"

subsection \<open>The screen under a sequence of user actions\<close>

text \<open>
  The actions the rendered screen offers: the tab buttons (line 191), the text area
  (line 214), a click on a saved template (line 233), the file input (line 274), the
  remove button (line 290) and the submit button (line 303); \<open>Mount\<close> is the effect
  of line 31. Each action meets the collaborators as they behave at that moment.
\<close>

datatype action =
    Mount
  | SetActiveTab creation_type
  | SetContent js_string
  | SelectUserTemplate user_template
  | TemplateUpload "js_file option"
  | RemoveTemplate
  | Submit

record screen =
  comp :: home
  localStorage :: storage
  effects :: "event list"

definition step :: "env \<times> action \<Rightarrow> screen \<Rightarrow> screen" where
  "step ea sc =
     (case ea of
        (e, Mount) \<Rightarrow>
          (let (s', evs) = loadUserTemplates e (comp sc)
           in sc\<lparr>comp := s', effects := effects sc @ evs\<rparr>)
      | (e, SetActiveTab t) \<Rightarrow> sc\<lparr>comp := (comp sc)\<lparr>activeTab := t\<rparr>\<rparr>
      | (e, SetContent c) \<Rightarrow> sc\<lparr>comp := (comp sc)\<lparr>content := c\<rparr>\<rparr>
      | (e, SelectUserTemplate t) \<Rightarrow> sc\<lparr>comp := handleSelectUserTemplate t (comp sc)\<rparr>
      | (e, TemplateUpload file) \<Rightarrow>
          (let (s', evs) = handleTemplateUpload e file (comp sc)
           in sc\<lparr>comp := s', effects := effects sc @ evs\<rparr>)
      | (e, RemoveTemplate) \<Rightarrow> sc\<lparr>comp := handleRemoveTemplate (comp sc)\<rparr>
      | (e, Submit) \<Rightarrow>
          (let (evs, st') = handleSubmit e (comp sc) (localStorage sc)
           in sc\<lparr>localStorage := st', effects := effects sc @ evs\<rparr>))"

definition run :: "(env \<times> action) list \<Rightarrow> screen \<Rightarrow> screen" where
  "run steps sc = fold step steps sc"

definition start :: "storage \<Rightarrow> screen" where
  "start st = \<lparr>comp = initial, localStorage = st, effects = []\<rparr>"

subsection \<open>Example data\<close>

definition png_file :: js_file where
  "png_file = \<lparr>blob_bytes = [137, 80, 78, 71], blob_type = lit ''image/png'',
     file_name = lit ''style.png''\<rparr>"

definition t1 :: user_template where
  "t1 = \<lparr>template_id = lit ''t1'', name = Some (lit ''Blue''),
     template_image_url = lit ''/files/t1.jpg''\<rparr>"

definition t2 :: user_template where
  "t2 = \<lparr>template_id = lit ''t2'', name = None,
     template_image_url = lit ''/files/t2.png''\<rparr>"

definition jpeg_blob :: js_blob where
  "jpeg_blob = \<lparr>blob_bytes = [255, 216, 255], blob_type = lit ''image/jpeg''\<rparr>"

text \<open>Collaborators that all succeed; the project store creates project \<open>p123\<close>.\<close>

definition env_ok :: env where
  "env_ok = \<lparr>listUserTemplates = Inr (Some [t1]),
     uploadUserTemplate = (\<lambda>f. Inr (Some t2)),
     getImageUrl = (\<lambda>u. u),
     fetch = (\<lambda>u. Inr (Response (Inr jpeg_blob))),
     initializeProject = (\<lambda>t c f st. (Inr (), st(lit ''currentProjectId'' \<mapsto> lit ''p123'')))\<rparr>"

text \<open>The catalog and the network fail, the project store succeeds.\<close>

definition env_offline :: env where
  "env_offline = env_ok\<lparr>listUserTemplates := Inl (JsError None),
     uploadUserTemplate := (\<lambda>f. Inl (JsError (Some (lit ''Network Error'')))),
     fetch := (\<lambda>u. Inl (JsError (Some (lit ''Failed to fetch''))))\<rparr>"

text \<open>The project store returns without having written an id.\<close>

definition env_noid :: env where
  "env_noid = env_ok\<lparr>initializeProject := (\<lambda>t c f st. (Inr (), st))\<rparr>"

text \<open>The project store returns having written the empty string as the id.\<close>

definition env_emptyid :: env where
  "env_emptyid = env_ok\<lparr>initializeProject :=
     (\<lambda>t c f st. (Inr (), st(lit ''currentProjectId'' \<mapsto> [])))\<rparr>"

text \<open>\<open>localStorage\<close> as an earlier project \<open>p001\<close> left it.\<close>

definition stale_storage :: storage where
  "stale_storage = Map.empty(lit ''currentProjectId'' \<mapsto> lit ''p001'')"

definition home_idea :: home where
  "home_idea = initial\<lparr>content := lit ''AI history talk''\<rparr>"

definition home_blank :: home where
  "home_blank = initial\<lparr>content := lit ''  ''\<rparr>"

definition home_description :: home where
  "home_description = home_idea\<lparr>activeTab := Description\<rparr>"

definition home_saved :: home where
  "home_saved = home_idea\<lparr>userTemplates := [t1], selectedTemplateId := Some (lit ''t1'')\<rparr>"

text \<open>A state no run of the screen reaches: a local file is held.\<close>

definition home_local :: home where
  "home_local = home_idea\<lparr>selectedTemplate := Some png_file\<rparr>"

text \<open>The screen is mounted, the user types the content and uploads a file.\<close>

definition session :: "(env \<times> action) list" where
  "session = [(env_ok, Mount), (env_ok, SetContent (lit ''AI history talk'')),
     (env_ok, TemplateUpload (Some png_file))]"

section \<open>Properties\<close>

subsection \<open>Auxiliary facts\<close>

text \<open>A string trims to the empty string exactly when it is all white space.\<close>

lemma trim_empty_iff: "trim s = [] \<longleftrightarrow> (\<forall>c\<in>set s. is_white_space c)"
proof
  assume "trim s = []"
  then have all: "\<forall>c\<in>set (dropWhile is_white_space s). is_white_space c"
    by (simp add: trim_def trimStart_def trimEnd_def dropWhile_eq_Nil_conv)
  have "dropWhile is_white_space s = []"
  proof (rule ccontr)
    assume ne: "dropWhile is_white_space s \<noteq> []"
    then have "\<not> is_white_space (hd (dropWhile is_white_space s))"
      by (rule hd_dropWhile)
    moreover have "hd (dropWhile is_white_space s) \<in> set (dropWhile is_white_space s)"
      using ne by simp
    ultimately show False using all by blast
  qed
  then show "\<forall>c\<in>set s. is_white_space c"
    by (simp add: dropWhile_eq_Nil_conv)
next
  assume "\<forall>c\<in>set s. is_white_space c"
  then have d: "dropWhile is_white_space s = []"
    by (simp add: dropWhile_eq_Nil_conv)
  show "trim s = []"
    unfolding trim_def trimStart_def trimEnd_def d by simp
qed

lemma navigations_append: "navigations (xs @ ys) = navigations xs @ navigations ys"
  by (induction xs rule: navigations.induct) simp_all

lemma toasts_append: "toasts (xs @ ys) = toasts xs @ toasts ys"
  by (induction xs rule: toasts.induct) simp_all

lemma project_calls_append: "project_calls (xs @ ys) = project_calls xs @ project_calls ys"
  by (induction xs rule: project_calls.induct) simp_all

lemma fetches_append: "fetches (xs @ ys) = fetches xs @ fetches ys"
  by (induction xs rule: fetches.induct) simp_all

lemma fetchTemplateFile_quiet:
  "navigations (snd (fetchTemplateFile e ts tid)) = []"
  "toasts (snd (fetchTemplateFile e ts tid)) = []"
  "project_calls (snd (fetchTemplateFile e ts tid)) = []"
  by (simp_all add: fetchTemplateFile_def Let_def split: option.splits sum.splits)

lemma templateFile_quiet:
  "navigations (snd (templateFile e s)) = []"
  "toasts (snd (templateFile e s)) = []"
  "project_calls (snd (templateFile e s)) = []"
  by (simp_all add: templateFile_def fetchTemplateFile_quiet)

text \<open>\<open>handleSubmit\<close> past the check of line 102, branch by branch.\<close>

lemma handleSubmit_valid:
  assumes "trim (content s) \<noteq> []"
  shows "handleSubmit e s st =
     (let file = fst (templateFile e s); evs = snd (templateFile e s);
          call = InitializeProject (activeTab s) (content s) file
      in case initializeProject e (activeTab s) (content s) file st of
           (Inl err, st') \<Rightarrow> (evs @ [call, ConsoleError log_create_failed err], st')
         | (Inr u, st') \<Rightarrow>
             (case st' (lit ''currentProjectId'') of
                None \<Rightarrow> (evs @ [call, Show \<lparr>toast_message = msg_create_failed, toast_type = Error\<rparr>], st')
              | Some pid \<Rightarrow>
                  if pid = [] then (evs @ [call, Show \<lparr>toast_message = msg_create_failed, toast_type = Error\<rparr>], st')
                  else (evs @ [call, Navigate (lit ''/project/'' @ pid @
                          (case activeTab s of Description \<Rightarrow> lit ''/detail'' | _ \<Rightarrow> lit ''/outline''))], st')))"
  using assms
  by (simp add: handleSubmit_def truthy_str_def Let_def split: prod.splits sum.splits option.splits creation_type.splits)

subsection \<open>Validation\<close>

text \<open>
  Claim C2. When the content trims to the empty string, \<open>handleSubmit\<close> shows the
  error toast of line 103 and does nothing else: no fetch of a template image, no call
  of the project store, \<open>localStorage\<close> as before. When the content does not trim
  to the empty string, the project store is called once, with the active tab, the
  content and the template file of lines 109 to 128, and the validation toast is not
  shown.
\<close>

theorem validation_gates_submission:
  "(trim (content s) = [] \<longrightarrow>
      handleSubmit e s st = ([Show \<lparr>toast_message = msg_enter_content, toast_type = Error\<rparr>], st) \<and>
      fetches (fst (handleSubmit e s st)) = [] \<and>
      project_calls (fst (handleSubmit e s st)) = []) \<and>
   (trim (content s) \<noteq> [] \<longrightarrow>
      project_calls (fst (handleSubmit e s st)) =
        [(activeTab s, content s, fst (templateFile e s))] \<and>
      \<lparr>toast_message = msg_enter_content, toast_type = Error\<rparr>
        \<notin> set (toasts (fst (handleSubmit e s st))))"
proof (intro conjI impI)
  assume "trim (content s) = []"
  then show blank: "handleSubmit e s st =
      ([Show \<lparr>toast_message = msg_enter_content, toast_type = Error\<rparr>], st)"
    by (simp add: handleSubmit_def truthy_str_def)
  show "fetches (fst (handleSubmit e s st)) = []" by (simp add: blank)
  show "project_calls (fst (handleSubmit e s st)) = []" by (simp add: blank)
next
  assume valid: "trim (content s) \<noteq> []"
  show "project_calls (fst (handleSubmit e s st)) =
      [(activeTab s, content s, fst (templateFile e s))]"
    by (simp add: handleSubmit_valid [OF valid] Let_def project_calls_append
        templateFile_quiet split: prod.splits sum.splits option.splits)
  have "msg_enter_content \<noteq> msg_create_failed"
    by (simp add: msg_enter_content_def msg_create_failed_def)
  then show "\<lparr>toast_message = msg_enter_content, toast_type = Error\<rparr>
      \<notin> set (toasts (fst (handleSubmit e s st)))"
    by (simp add: handleSubmit_valid [OF valid] Let_def toasts_append
        templateFile_quiet split: prod.splits sum.splits option.splits)
qed

theorem validation_gates_submission_witness:
  "trim (content home_blank) = [] \<and>
   handleSubmit env_ok home_blank Map.empty =
     ([Show \<lparr>toast_message = msg_enter_content, toast_type = Error\<rparr>], Map.empty) \<and>
   trim (content home_idea) \<noteq> [] \<and>
   project_calls (fst (handleSubmit env_ok home_idea Map.empty)) =
     [(Idea, lit ''AI history talk'', None)]"
proof -
  have blank: "trim (content home_blank) = []"
    by (simp add: home_blank_def initial_def lit_def trim_def trimStart_def trimEnd_def
        is_white_space_def)
  have valid: "trim (content home_idea) \<noteq> []"
    by (simp add: home_idea_def initial_def lit_def trim_def trimStart_def trimEnd_def
        is_white_space_def)
  have none: "fst (templateFile env_ok home_idea) = None"
    by (simp add: templateFile_def home_idea_def initial_def)
  show ?thesis
    using blank valid none
      validation_gates_submission [of home_blank env_ok Map.empty]
      validation_gates_submission [of home_idea env_ok Map.empty]
    by (simp add: home_idea_def initial_def)
qed

subsection \<open>Template selection\<close>

text \<open>
  Claim C5. When the upload returns a record, the record is put in front of the list
  of saved templates and its id becomes the selected template id; the local file
  selection is cleared.
\<close>

theorem upload_success_prepends_and_selects:
  assumes "uploadUserTemplate e f = Inr (Some t)"
  shows "userTemplates (fst (handleTemplateUpload e (Some f) s)) = t # userTemplates s \<and>
         selectedTemplateId (fst (handleTemplateUpload e (Some f) s)) = Some (template_id t) \<and>
         selectedTemplate (fst (handleTemplateUpload e (Some f) s)) = None"
  using assms by (simp add: handleTemplateUpload_def)

theorem upload_success_prepends_and_selects_witness:
  "uploadUserTemplate env_ok png_file = Inr (Some t2) \<and>
   userTemplates (fst (handleTemplateUpload env_ok (Some png_file) home_saved)) = [t2, t1] \<and>
   selectedTemplateId (fst (handleTemplateUpload env_ok (Some png_file) home_saved)) = Some (lit ''t2'') \<and>
   selectedTemplate (fst (handleTemplateUpload env_ok (Some png_file) home_saved)) = None"
proof -
  have up: "uploadUserTemplate env_ok png_file = Inr (Some t2)"
    by (simp add: env_ok_def)
  show ?thesis
    using up upload_success_prepends_and_selects [OF up, of home_saved]
    by (simp add: home_saved_def home_idea_def initial_def t2_def)
qed

text \<open>
  Claim C6. When the upload throws, an error toast is shown (the message of line 86:
  the prefix followed by the error's message, or by the fallback text when the error
  has no message or an empty one), and the list of saved templates, the selected
  template id and the selected local file are what they were; indeed no state of the
  component changes.
\<close>

theorem upload_failure_keeps_state:
  assumes "uploadUserTemplate e f = Inl err"
  shows "userTemplates (fst (handleTemplateUpload e (Some f) s)) = userTemplates s \<and>
         selectedTemplateId (fst (handleTemplateUpload e (Some f) s)) = selectedTemplateId s \<and>
         selectedTemplate (fst (handleTemplateUpload e (Some f) s)) = selectedTemplate s \<and>
         fst (handleTemplateUpload e (Some f) s) = s \<and>
         toasts (snd (handleTemplateUpload e (Some f) s)) =
           [\<lparr>toast_message = msg_upload_failed @
                (case message err of
                   None \<Rightarrow> msg_unknown_error
                 | Some m \<Rightarrow> if m = [] then msg_unknown_error else m),
             toast_type = Error\<rparr>]"
  using assms
  by (simp add: handleTemplateUpload_def truthy_str_def split: option.splits)

theorem upload_failure_keeps_state_witness:
  "uploadUserTemplate env_offline png_file = Inl (JsError (Some (lit ''Network Error''))) \<and>
   userTemplates (fst (handleTemplateUpload env_offline (Some png_file) home_saved)) = [t1] \<and>
   selectedTemplateId (fst (handleTemplateUpload env_offline (Some png_file) home_saved)) = Some (lit ''t1'') \<and>
   selectedTemplate (fst (handleTemplateUpload env_offline (Some png_file) home_saved)) = None \<and>
   toasts (snd (handleTemplateUpload env_offline (Some png_file) home_saved)) =
     [\<lparr>toast_message = msg_upload_failed @ lit ''Network Error'', toast_type = Error\<rparr>]"
proof -
  have up: "uploadUserTemplate env_offline png_file = Inl (JsError (Some (lit ''Network Error'')))"
    by (simp add: env_offline_def env_ok_def)
  show ?thesis
    using up upload_failure_keeps_state [OF up, of home_saved]
    by (simp add: home_saved_def home_idea_def initial_def lit_def)
qed

text \<open>
  Claim C9. \<open>handleRemoveTemplate\<close> sets the selected template id and the selected
  local file to null, whatever they were.
\<close>

theorem remove_resets:
  "selectedTemplateId (handleRemoveTemplate s) = None \<and>
   selectedTemplate (handleRemoveTemplate s) = None"
  by (simp add: handleRemoveTemplate_def)

subsection \<open>Submission\<close>

text \<open>The example content passes the check of line 102.\<close>

lemma home_idea_valid: "trim (content home_idea) \<noteq> []"
  by (simp add: home_idea_def initial_def lit_def trim_def trimStart_def trimEnd_def
      is_white_space_def)

text \<open>
  Claim C1. When the content passes validation, \<open>initializeProject\<close> returns and
  \<open>localStorage\<close> then holds a project id under \<open>currentProjectId\<close>, the screen
  navigates exactly once, to \<open>/project/{id}/outline\<close> for the types idea and
  outline and to \<open>/project/{id}/detail\<close> for the type description; nothing but the
  type and the id enters the route. An id is one that line 134 accepts: the test
  \<open>!projectId\<close> takes the empty string for a missing id, as it takes null.
\<close>

theorem route_by_creation_type:
  assumes "trim (content s) \<noteq> []"
    and "initializeProject e (activeTab s) (content s) (fst (templateFile e s)) st = (Inr u, st')"
    and "st' (lit ''currentProjectId'') = Some projectId"
    and "projectId \<noteq> []"
  shows "navigations (fst (handleSubmit e s st)) =
           [lit ''/project/'' @ projectId @
              (case activeTab s of
                 Idea \<Rightarrow> lit ''/outline''
               | Outline \<Rightarrow> lit ''/outline''
               | Description \<Rightarrow> lit ''/detail'')]"
  using assms(2,3,4)
  by (simp add: handleSubmit_valid [OF assms(1)] Let_def navigations_append
      templateFile_quiet split: creation_type.splits)

theorem route_by_creation_type_witness:
  "trim (content home_idea) \<noteq> [] \<and>
   lit ''p123'' \<noteq> [] \<and>
   navigations (fst (handleSubmit env_ok home_idea Map.empty)) = [lit ''/project/p123/outline''] \<and>
   trim (content home_description) \<noteq> [] \<and>
   navigations (fst (handleSubmit env_ok home_description Map.empty)) = [lit ''/project/p123/detail'']"
proof -
  let ?st' = "(Map.empty :: storage)(lit ''currentProjectId'' \<mapsto> lit ''p123'')"
  have valid: "trim (content home_description) \<noteq> []"
    using home_idea_valid by (simp add: home_description_def)
  have init1: "initializeProject env_ok (activeTab home_idea) (content home_idea)
      (fst (templateFile env_ok home_idea)) Map.empty = (Inr (), ?st')"
    by (simp add: env_ok_def)
  have init2: "initializeProject env_ok (activeTab home_description) (content home_description)
      (fst (templateFile env_ok home_description)) Map.empty = (Inr (), ?st')"
    by (simp add: env_ok_def)
  have id: "?st' (lit ''currentProjectId'') = Some (lit ''p123'')"
    by simp
  have ne: "lit ''p123'' \<noteq> []"
    by (simp add: lit_def)
  show ?thesis
    using home_idea_valid valid ne
      route_by_creation_type [OF home_idea_valid init1 id ne]
      route_by_creation_type [OF valid init2 id ne]
    by (simp add: home_description_def home_idea_def initial_def lit_def)
qed

text \<open>
  Claim C8, as the code has it. When the content passes validation and
  \<open>initializeProject\<close> returns, but \<open>localStorage\<close> then holds no id under
  \<open>currentProjectId\<close> (no entry, or the empty string, which line 134 refuses alike),
  the only toast is the generic failure message of line 135 and \<open>navigate\<close> is not
  called.
\<close>

theorem no_project_id_fails:
  assumes "trim (content s) \<noteq> []"
    and "initializeProject e (activeTab s) (content s) (fst (templateFile e s)) st = (Inr u, st')"
    and "st' (lit ''currentProjectId'') = None \<or> st' (lit ''currentProjectId'') = Some []"
  shows "toasts (fst (handleSubmit e s st)) =
           [\<lparr>toast_message = msg_create_failed, toast_type = Error\<rparr>] \<and>
         navigations (fst (handleSubmit e s st)) = []"
  using assms(2,3)
  by (auto simp: handleSubmit_valid [OF assms(1)] Let_def toasts_append navigations_append
      templateFile_quiet)

theorem no_project_id_fails_witness:
  "trim (content home_idea) \<noteq> [] \<and>
   initializeProject env_noid Idea (lit ''AI history talk'') None Map.empty = (Inr (), Map.empty) \<and>
   (Map.empty :: storage) (lit ''currentProjectId'') = None \<and>
   toasts (fst (handleSubmit env_noid home_idea Map.empty)) =
     [\<lparr>toast_message = msg_create_failed, toast_type = Error\<rparr>] \<and>
   navigations (fst (handleSubmit env_noid home_idea Map.empty)) = [] \<and>
   snd (initializeProject env_emptyid Idea (lit ''AI history talk'') None stale_storage)
     (lit ''currentProjectId'') = Some [] \<and>
   toasts (fst (handleSubmit env_emptyid home_idea stale_storage)) =
     [\<lparr>toast_message = msg_create_failed, toast_type = Error\<rparr>] \<and>
   navigations (fst (handleSubmit env_emptyid home_idea stale_storage)) = []"
proof -
  let ?st' = "stale_storage(lit ''currentProjectId'' \<mapsto> [])"
  have nofile: "fst (templateFile e home_idea) = None" for e
    by (simp add: templateFile_def home_idea_def initial_def)
  have init1': "initializeProject env_noid Idea (lit ''AI history talk'') None Map.empty =
      (Inr (), Map.empty)"
    by (simp add: env_noid_def env_ok_def)
  then have init1: "initializeProject env_noid (activeTab home_idea) (content home_idea)
      (fst (templateFile env_noid home_idea)) Map.empty = (Inr (), Map.empty)"
    by (simp add: nofile) (simp add: home_idea_def initial_def)
  have absent: "(Map.empty :: storage) (lit ''currentProjectId'') = None \<or>
      (Map.empty :: storage) (lit ''currentProjectId'') = Some []"
    by simp
  have init2: "initializeProject env_emptyid (activeTab home_idea) (content home_idea)
      (fst (templateFile env_emptyid home_idea)) stale_storage = (Inr (), ?st')"
    by (simp add: env_emptyid_def env_ok_def)
  have init2': "snd (initializeProject env_emptyid Idea (lit ''AI history talk'') None
      stale_storage) (lit ''currentProjectId'') = Some []"
    by (simp add: env_emptyid_def env_ok_def)
  have empty: "?st' (lit ''currentProjectId'') = None \<or>
      ?st' (lit ''currentProjectId'') = Some []"
    by simp
  show ?thesis
    using home_idea_valid init1' init2'
      no_project_id_fails [OF home_idea_valid init1 absent]
      no_project_id_fails [OF home_idea_valid init2 empty]
    by simp
qed

text \<open>
  Claim C8 as stated speaks of the newly created id being absent. Line 133 reads
  whatever the key holds: when the project store returns without having written an id
  and the key still holds the id \<open>p001\<close> of an earlier project, no failure message
  is shown and the screen navigates to \<open>/project/p001/outline\<close>.
\<close>

theorem stale_project_id_counterexample:
  "initializeProject env_noid Idea (lit ''AI history talk'') None stale_storage =
     (Inr (), stale_storage) \<and>
   stale_storage (lit ''currentProjectId'') = Some (lit ''p001'') \<and>
   fst (handleSubmit env_noid home_idea stale_storage) =
     [InitializeProject Idea (lit ''AI history talk'') None,
      Navigate (lit ''/project/p001/outline'')] \<and>
   toasts (fst (handleSubmit env_noid home_idea stale_storage)) = []"
  by (simp add: handleSubmit_def templateFile_def trim_def trimStart_def trimEnd_def
      is_white_space_def truthy_str_def lit_def env_noid_def env_ok_def stale_storage_def
      home_idea_def initial_def)

subsection \<open>Materializing the saved template\<close>

text \<open>
  What a submission with valid content fetches and what it hands to the project
  store.
\<close>

lemma fetches_valid:
  assumes "trim (content s) \<noteq> []"
  shows "fetches (fst (handleSubmit e s st)) = fetches (snd (templateFile e s))"
  by (simp add: handleSubmit_valid [OF assms] Let_def fetches_append
      split: prod.splits sum.splits option.splits)

lemma project_calls_valid:
  assumes "trim (content s) \<noteq> []"
  shows "project_calls (fst (handleSubmit e s st)) =
     [(activeTab s, content s, fst (templateFile e s))]"
  by (simp add: handleSubmit_valid [OF assms] Let_def project_calls_append
      templateFile_quiet split: prod.splits sum.splits option.splits)

lemma project_calls_blank:
  assumes "trim (content s) = []"
  shows "project_calls (fst (handleSubmit e s st)) = []"
  using assms by (simp add: handleSubmit_def truthy_str_def)

text \<open>
  The three outcomes of lines 117 to 127: a file exactly when the record is found, the
  fetch resolves and the blob is read.
\<close>

lemma fetchTemplateFile_Some:
  assumes "fst (fetchTemplateFile e ts tid) = Some f"
  shows "\<exists>template resp b.
     find (\<lambda>t. template_id t = tid) ts = Some template \<and>
     fetch e (getImageUrl e (template_image_url template)) = Inr resp \<and>
     blob resp = Inr b \<and>
     f = \<lparr>blob_bytes = blob_bytes b, blob_type = blob_type b,
          file_name = lit ''template.png''\<rparr> \<and>
     snd (fetchTemplateFile e ts tid) = [Fetch (getImageUrl e (template_image_url template))]"
  using assms
  by (auto simp: fetchTemplateFile_def Let_def split: option.splits sum.splits)

lemma fetchTemplateFile_found:
  assumes "find (\<lambda>t. template_id t = tid) ts = Some template"
    and "fetch e (getImageUrl e (template_image_url template)) = Inr resp"
    and "blob resp = Inr b"
  shows "fst (fetchTemplateFile e ts tid) =
     Some \<lparr>blob_bytes = blob_bytes b, blob_type = blob_type b, file_name = lit ''template.png''\<rparr>"
  using assms by (simp add: fetchTemplateFile_def)

lemma fetchTemplateFile_failed:
  assumes "find (\<lambda>t. template_id t = tid) ts = None \<or>
     (\<exists>template. find (\<lambda>t. template_id t = tid) ts = Some template \<and>
        (\<exists>err. fetch e (getImageUrl e (template_image_url template)) = Inl err \<or>
           (\<exists>resp. fetch e (getImageUrl e (template_image_url template)) = Inr resp \<and>
              blob resp = Inl err)))"
  shows "fst (fetchTemplateFile e ts tid) = None"
  using assms by (auto simp: fetchTemplateFile_def)

text \<open>
  Claim C3. The content is valid, no local file is held and a saved template is
  selected, but its record is not in the list of saved templates, or \<open>fetch\<close> throws,
  or reading the blob throws. Then the project store is still called, exactly once and
  with no template file. The submission goes on as one with no template selected: the
  same navigation, the same toasts, the same \<open>localStorage\<close>. In particular, when
  the project store returns and its project id is there, the screen navigates to the
  route of the creation type.
\<close>

theorem resolution_failure_degrades:
  assumes valid: "trim (content s) \<noteq> []"
    and local: "selectedTemplate s = None"
    and saved: "selectedTemplateId s = Some tid"
    and fails: "find (\<lambda>t. template_id t = tid) (userTemplates s) = None \<or>
      (\<exists>template. find (\<lambda>t. template_id t = tid) (userTemplates s) = Some template \<and>
         (\<exists>err. fetch e (getImageUrl e (template_image_url template)) = Inl err \<or>
            (\<exists>resp. fetch e (getImageUrl e (template_image_url template)) = Inr resp \<and>
               blob resp = Inl err)))"
  shows "project_calls (fst (handleSubmit e s st)) = [(activeTab s, content s, None)] \<and>
    navigations (fst (handleSubmit e s st)) =
      navigations (fst (handleSubmit e (s\<lparr>selectedTemplateId := None\<rparr>) st)) \<and>
    toasts (fst (handleSubmit e s st)) =
      toasts (fst (handleSubmit e (s\<lparr>selectedTemplateId := None\<rparr>) st)) \<and>
    snd (handleSubmit e s st) = snd (handleSubmit e (s\<lparr>selectedTemplateId := None\<rparr>) st) \<and>
    (\<forall>u st' projectId.
       initializeProject e (activeTab s) (content s) None st = (Inr u, st') \<and>
       st' (lit ''currentProjectId'') = Some projectId \<and> projectId \<noteq> [] \<longrightarrow>
       navigations (fst (handleSubmit e s st)) =
         [lit ''/project/'' @ projectId @
            (case activeTab s of
               Idea \<Rightarrow> lit ''/outline''
             | Outline \<Rightarrow> lit ''/outline''
             | Description \<Rightarrow> lit ''/detail'')])"
proof -
  let ?s0 = "s\<lparr>selectedTemplateId := None\<rparr>"
  have none: "fst (templateFile e s) = None"
    using local saved fetchTemplateFile_failed [OF fails]
    by (simp add: templateFile_def)
  have none0: "templateFile e ?s0 = (None, [])"
    using local by (simp add: templateFile_def)
  have valid0: "trim (content ?s0) \<noteq> []"
    using valid by simp
  have calls: "project_calls (fst (handleSubmit e s st)) = [(activeTab s, content s, None)]"
    by (simp add: project_calls_valid [OF valid] none)
  have navs: "navigations (fst (handleSubmit e s st)) =
      navigations (fst (handleSubmit e ?s0 st))"
    by (simp add: handleSubmit_valid [OF valid] handleSubmit_valid [OF valid0] none none0
        Let_def navigations_append templateFile_quiet
        split: prod.splits sum.splits option.splits)
  have shown: "toasts (fst (handleSubmit e s st)) = toasts (fst (handleSubmit e ?s0 st))"
    by (simp add: handleSubmit_valid [OF valid] handleSubmit_valid [OF valid0] none none0
        Let_def toasts_append templateFile_quiet
        split: prod.splits sum.splits option.splits)
  have stored: "snd (handleSubmit e s st) = snd (handleSubmit e ?s0 st)"
    by (simp add: handleSubmit_valid [OF valid] handleSubmit_valid [OF valid0] none none0
        Let_def split: prod.splits sum.splits option.splits)
  have routed: "navigations (fst (handleSubmit e s st)) =
      [lit ''/project/'' @ projectId @
         (case activeTab s of
            Idea \<Rightarrow> lit ''/outline''
          | Outline \<Rightarrow> lit ''/outline''
          | Description \<Rightarrow> lit ''/detail'')]"
    if "initializeProject e (activeTab s) (content s) None st = (Inr u, st')"
      and "st' (lit ''currentProjectId'') = Some projectId" and "projectId \<noteq> []"
    for u st' projectId
    using that
    by (simp add: handleSubmit_valid [OF valid] none Let_def navigations_append
        templateFile_quiet split: creation_type.splits)
  from calls navs shown stored routed show ?thesis by blast
qed

theorem resolution_failure_degrades_witness:
  "trim (content home_saved) \<noteq> [] \<and>
   find (\<lambda>t. template_id t = lit ''t1'') (userTemplates home_saved) = Some t1 \<and>
   fetch env_offline (getImageUrl env_offline (template_image_url t1)) =
     Inl (JsError (Some (lit ''Failed to fetch''))) \<and>
   project_calls (fst (handleSubmit env_offline home_saved Map.empty)) =
     [(Idea, lit ''AI history talk'', None)] \<and>
   navigations (fst (handleSubmit env_offline home_saved Map.empty)) =
     [lit ''/project/p123/outline'']"
proof -
  let ?st' = "(Map.empty :: storage)(lit ''currentProjectId'' \<mapsto> lit ''p123'')"
  have valid: "trim (content home_saved) \<noteq> []"
    using home_idea_valid by (simp add: home_saved_def)
  have local: "selectedTemplate home_saved = None"
    by (simp add: home_saved_def home_idea_def initial_def)
  have saved: "selectedTemplateId home_saved = Some (lit ''t1'')"
    by (simp add: home_saved_def)
  have found: "find (\<lambda>t. template_id t = lit ''t1'') (userTemplates home_saved) = Some t1"
    by (simp add: home_saved_def t1_def)
  have thrown: "fetch env_offline (getImageUrl env_offline (template_image_url t1)) =
      Inl (JsError (Some (lit ''Failed to fetch'')))"
    by (simp add: env_offline_def)
  have fails: "find (\<lambda>t. template_id t = lit ''t1'') (userTemplates home_saved) = None \<or>
      (\<exists>template. find (\<lambda>t. template_id t = lit ''t1'') (userTemplates home_saved) = Some template \<and>
         (\<exists>err. fetch env_offline (getImageUrl env_offline (template_image_url template)) = Inl err \<or>
            (\<exists>resp. fetch env_offline (getImageUrl env_offline (template_image_url template)) = Inr resp \<and>
               blob resp = Inl err)))"
    using found thrown by blast
  have init: "initializeProject env_offline (activeTab home_saved) (content home_saved) None
      Map.empty = (Inr (), ?st')"
    by (simp add: env_offline_def env_ok_def)
  have id: "?st' (lit ''currentProjectId'') = Some (lit ''p123'')"
    by simp
  have ne: "lit ''p123'' \<noteq> []"
    by (simp add: lit_def)
  have tab: "activeTab home_saved = Idea" "content home_saved = lit ''AI history talk''"
    by (simp_all add: home_saved_def home_idea_def initial_def)
  from resolution_failure_degrades [OF valid local saved fails, of Map.empty] init id ne
  have "project_calls (fst (handleSubmit env_offline home_saved Map.empty)) =
      [(activeTab home_saved, content home_saved, None)]"
    and "navigations (fst (handleSubmit env_offline home_saved Map.empty)) =
      [lit ''/project/'' @ lit ''p123'' @
         (case activeTab home_saved of
            Idea \<Rightarrow> lit ''/outline''
          | Outline \<Rightarrow> lit ''/outline''
          | Description \<Rightarrow> lit ''/detail'')]"
    by blast+
  then show ?thesis
    using valid found thrown by (simp add: tab) (simp add: lit_def)
qed

text \<open>
  Claim C7, as the code has it. The content is valid, no local file is held, a saved
  template is selected (a non-empty id, which line 111 takes for a selection), its
  record is found, the fetch resolves and the blob is read. Then the file handed to
  the project store holds the bytes of the blob and the content type of the blob, and
  its name is \<open>template.png\<close>: line 123 gives every file this one name.
\<close>

theorem template_file_from_saved_template:
  assumes valid: "trim (content s) \<noteq> []"
    and local: "selectedTemplate s = None"
    and saved: "selectedTemplateId s = Some tid" "tid \<noteq> []"
    and found: "find (\<lambda>t. template_id t = tid) (userTemplates s) = Some template"
    and fetched: "fetch e (getImageUrl e (template_image_url template)) = Inr resp"
    and read: "blob resp = Inr b"
  shows "project_calls (fst (handleSubmit e s st)) =
     [(activeTab s, content s,
       Some \<lparr>blob_bytes = blob_bytes b, blob_type = blob_type b,
             file_name = lit ''template.png''\<rparr>)]"
  using local saved fetchTemplateFile_found [OF found fetched read]
  by (simp add: project_calls_valid [OF valid] templateFile_def truthy_str_def)

theorem template_file_from_saved_template_witness:
  "trim (content home_saved) \<noteq> [] \<and> lit ''t1'' \<noteq> [] \<and>
   find (\<lambda>t. template_id t = lit ''t1'') (userTemplates home_saved) = Some t1 \<and>
   fetch env_ok (getImageUrl env_ok (template_image_url t1)) = Inr (Response (Inr jpeg_blob)) \<and>
   project_calls (fst (handleSubmit env_ok home_saved Map.empty)) =
     [(Idea, lit ''AI history talk'',
       Some \<lparr>blob_bytes = [255, 216, 255], blob_type = lit ''image/jpeg'',
             file_name = lit ''template.png''\<rparr>)]"
proof -
  have valid: "trim (content home_saved) \<noteq> []"
    using home_idea_valid by (simp add: home_saved_def)
  have local: "selectedTemplate home_saved = None"
    by (simp add: home_saved_def home_idea_def initial_def)
  have saved: "selectedTemplateId home_saved = Some (lit ''t1'')"
    by (simp add: home_saved_def)
  have ne: "lit ''t1'' \<noteq> []"
    by (simp add: lit_def)
  have found: "find (\<lambda>t. template_id t = lit ''t1'') (userTemplates home_saved) = Some t1"
    by (simp add: home_saved_def t1_def)
  have fetched: "fetch env_ok (getImageUrl env_ok (template_image_url t1)) =
      Inr (Response (Inr jpeg_blob))"
    by (simp add: env_ok_def)
  have read: "blob (Response (Inr jpeg_blob)) = Inr jpeg_blob"
    by simp
  have tab: "activeTab home_saved = Idea" "content home_saved = lit ''AI history talk''"
    by (simp_all add: home_saved_def home_idea_def initial_def)
  show ?thesis
    using valid ne found fetched
      template_file_from_saved_template [OF valid local saved ne found fetched read,
        of Map.empty]
    by (simp add: tab jpeg_blob_def)
qed

text \<open>
  Claim C7 as stated asks for a name \<open>template.<ext>\<close> with the extension of the
  image. For the saved template whose image is \<open>/files/t1.jpg\<close> and is served as
  \<open>image/jpeg\<close>, the file is named \<open>template.png\<close>, not \<open>template.jpg\<close>.
\<close>

theorem template_file_name_counterexample:
  "template_image_url t1 = lit ''/files/t1.jpg'' \<and>
   fst (handleSubmit env_ok home_saved Map.empty) =
     [Fetch (lit ''/files/t1.jpg''),
      InitializeProject Idea (lit ''AI history talk'')
        (Some \<lparr>blob_bytes = [255, 216, 255], blob_type = lit ''image/jpeg'',
               file_name = lit ''template.png''\<rparr>),
      Navigate (lit ''/project/p123/outline'')] \<and>
   lit ''template.png'' \<noteq> lit ''template.jpg''"
  by (simp add: handleSubmit_def templateFile_def fetchTemplateFile_def trim_def
      trimStart_def trimEnd_def is_white_space_def truthy_str_def lit_def env_ok_def
      home_saved_def home_idea_def initial_def t1_def jpeg_blob_def)

subsection \<open>Sequences of actions\<close>

text \<open>
  No action sets a local file where none was held, and no action makes a local file
  and a saved template selected together.
\<close>

lemma step_no_local_file:
  assumes "selectedTemplate (comp sc) = None"
  shows "selectedTemplate (comp (step ea sc)) = None"
proof (cases ea)
  case (Pair e a)
  show ?thesis
  proof (cases a)
    case Mount
    with Pair assms show ?thesis
      by (simp add: step_def loadUserTemplates_def split: sum.splits option.splits)
  next
    case (TemplateUpload upload)
    with Pair assms show ?thesis
      by (simp add: step_def handleTemplateUpload_def split: sum.splits option.splits)
  next
    case Submit
    with Pair assms show ?thesis
      by (simp add: step_def split: prod.splits)
  qed (use Pair assms in \<open>simp_all add: step_def handleSelectUserTemplate_def
      handleRemoveTemplate_def\<close>)
qed

lemma run_no_local_file:
  "selectedTemplate (comp sc) = None \<Longrightarrow> selectedTemplate (comp (run steps sc)) = None"
proof (induction steps arbitrary: sc)
  case Nil
  then show ?case by (simp add: run_def)
next
  case (Cons ea steps)
  from Cons.prems have "selectedTemplate (comp (step ea sc)) = None"
    by (rule step_no_local_file)
  then have "selectedTemplate (comp (run steps (step ea sc))) = None"
    by (rule Cons.IH)
  then show ?case by (simp add: run_def)
qed

lemma step_one_source:
  assumes "selectedTemplate (comp sc) = None \<or> selectedTemplateId (comp sc) = None"
  shows "selectedTemplate (comp (step ea sc)) = None \<or>
         selectedTemplateId (comp (step ea sc)) = None"
proof (cases ea)
  case (Pair e a)
  show ?thesis
  proof (cases a)
    case Mount
    with Pair assms show ?thesis
      by (simp add: step_def loadUserTemplates_def split: sum.splits option.splits)
  next
    case (TemplateUpload upload)
    with Pair assms show ?thesis
      by (simp add: step_def handleTemplateUpload_def split: sum.splits option.splits)
  next
    case Submit
    with Pair assms show ?thesis
      by (simp add: step_def split: prod.splits)
  qed (use Pair assms in \<open>simp_all add: step_def handleSelectUserTemplate_def
      handleRemoveTemplate_def\<close>)
qed

lemma run_one_source:
  "selectedTemplate (comp sc) = None \<or> selectedTemplateId (comp sc) = None \<Longrightarrow>
   selectedTemplate (comp (run steps sc)) = None \<or>
   selectedTemplateId (comp (run steps sc)) = None"
proof (induction steps arbitrary: sc)
  case Nil
  then show ?case by (simp add: run_def)
next
  case (Cons ea steps)
  from Cons.prems
  have "selectedTemplate (comp (step ea sc)) = None \<or>
        selectedTemplateId (comp (step ea sc)) = None"
    by (rule step_one_source)
  then have "selectedTemplate (comp (run steps (step ea sc))) = None \<or>
             selectedTemplateId (comp (run steps (step ea sc))) = None"
    by (rule Cons.IH)
  then show ?case by (simp add: run_def)
qed

text \<open>
  Claim C4, as the code has it. Along every sequence of the actions of the screen
  (mount, choice of the type, typing, click on a saved template, file input, remove,
  submit), from a state in which a local file and a saved template are not selected
  together, they never are. A click on a saved template selects it and clears the
  local file; an upload that returns a record selects that record and clears the local
  file. The screen has no action that selects a local file: a file chosen in the file
  input is uploaded to the catalog.
\<close>

theorem at_most_one_template_source:
  "(selectedTemplate (comp sc) = None \<or> selectedTemplateId (comp sc) = None \<longrightarrow>
      selectedTemplate (comp (run steps sc)) = None \<or>
      selectedTemplateId (comp (run steps sc)) = None) \<and>
   selectedTemplate (handleSelectUserTemplate template s) = None \<and>
   selectedTemplateId (handleSelectUserTemplate template s) = Some (template_id template) \<and>
   (uploadUserTemplate e f = Inr (Some template) \<longrightarrow>
      selectedTemplate (fst (handleTemplateUpload e (Some f) s)) = None \<and>
      selectedTemplateId (fst (handleTemplateUpload e (Some f) s)) = Some (template_id template))"
  using run_one_source [of sc steps]
  by (simp add: handleSelectUserTemplate_def handleTemplateUpload_def)

theorem at_most_one_template_source_witness:
  "(selectedTemplate (comp (start Map.empty)) = None \<or>
    selectedTemplateId (comp (start Map.empty)) = None) \<and>
   (selectedTemplate (comp (run session (start Map.empty))) = None \<or>
    selectedTemplateId (comp (run session (start Map.empty))) = None) \<and>
   uploadUserTemplate env_ok png_file = Inr (Some t2) \<and>
   selectedTemplate (fst (handleTemplateUpload env_ok (Some png_file) home_local)) = None \<and>
   selectedTemplateId (fst (handleTemplateUpload env_ok (Some png_file) home_local)) =
     Some (lit ''t2'')"
proof -
  have inv: "selectedTemplate (comp (start Map.empty)) = None \<or>
      selectedTemplateId (comp (start Map.empty)) = None"
    by (simp add: start_def initial_def)
  have up: "uploadUserTemplate env_ok png_file = Inr (Some t2)"
    by (simp add: env_ok_def)
  show ?thesis
    using inv up
      at_most_one_template_source [of "start Map.empty" session t2 home_local env_ok png_file]
    by (simp add: t2_def)
qed

text \<open>
  Claim C4 as stated has an action that selects a local file and thereby clears the
  saved template. The one handler that receives a local file is
  \<open>handleTemplateUpload\<close>. With the saved template \<open>t1\<close> selected, choosing a
  file leaves no local file selected and a saved template selected: the uploaded
  \<open>t2\<close> when the upload succeeds, still \<open>t1\<close> when it fails.
\<close>

theorem select_local_file_counterexample:
  "selectedTemplate (fst (handleTemplateUpload env_ok (Some png_file) home_saved)) = None \<and>
   selectedTemplateId (fst (handleTemplateUpload env_ok (Some png_file) home_saved)) =
     Some (lit ''t2'') \<and>
   selectedTemplate (fst (handleTemplateUpload env_offline (Some png_file) home_saved)) = None \<and>
   selectedTemplateId (fst (handleTemplateUpload env_offline (Some png_file) home_saved)) =
     Some (lit ''t1'')"
  by (simp add: handleTemplateUpload_def env_ok_def env_offline_def home_saved_def
      home_idea_def initial_def t2_def)

text \<open>
  The state after the example session.
\<close>

lemma session_state:
  "comp (run session (start Map.empty)) =
     \<lparr>activeTab = Idea, content = lit ''AI history talk'', selectedTemplate = None,
      selectedTemplateId = Some (lit ''t2''), userTemplates = [t2, t1],
      isLoadingTemplates = False\<rparr>"
  by (simp add: session_def run_def step_def start_def initial_def loadUserTemplates_def
      handleTemplateUpload_def env_ok_def t2_def)

text \<open>
  Claim C10. After every sequence of actions from the initial state, no local file is
  selected. So whenever \<open>handleSubmit\<close>, in such a state, hands a file to the project
  store, that file was built in this submission from a blob fetched from the image of
  the selected saved template, a record of the list of saved templates; otherwise it
  hands over no file.
\<close>

theorem local_file_unreachable:
  "selectedTemplate (comp (run steps (start st))) = None \<and>
   (\<forall>t c f. (t, c, Some f) \<in> set (project_calls
        (fst (handleSubmit e (comp (run steps (start st))) st'))) \<longrightarrow>
      (\<exists>template resp b.
         template \<in> set (userTemplates (comp (run steps (start st)))) \<and>
         selectedTemplateId (comp (run steps (start st))) = Some (template_id template) \<and>
         fetches (fst (handleSubmit e (comp (run steps (start st))) st')) =
           [getImageUrl e (template_image_url template)] \<and>
         fetch e (getImageUrl e (template_image_url template)) = Inr resp \<and>
         blob resp = Inr b \<and>
         f = \<lparr>blob_bytes = blob_bytes b, blob_type = blob_type b,
              file_name = lit ''template.png''\<rparr>))"
proof (intro conjI allI impI)
  let ?s = "comp (run steps (start st))"
  have "selectedTemplate (comp (start st)) = None"
    by (simp add: start_def initial_def)
  then show local: "selectedTemplate ?s = None"
    by (rule run_no_local_file)
  fix t c f
  assume call: "(t, c, Some f) \<in> set (project_calls (fst (handleSubmit e ?s st')))"
  have valid: "trim (content ?s) \<noteq> []"
  proof
    assume "trim (content ?s) = []"
    then have "project_calls (fst (handleSubmit e ?s st')) = []"
      by (rule project_calls_blank)
    with call show False by simp
  qed
  from call have given: "fst (templateFile e ?s) = Some f"
    by (simp add: project_calls_valid [OF valid])
  then obtain tid where saved: "selectedTemplateId ?s = Some tid"
    and built: "templateFile e ?s = fetchTemplateFile e (userTemplates ?s) tid"
    using local by (cases "selectedTemplateId ?s") (simp_all add: templateFile_def split: if_splits)
  from given built have "fst (fetchTemplateFile e (userTemplates ?s) tid) = Some f"
    by simp
  from fetchTemplateFile_Some [OF this]
  obtain template resp b where
    found: "find (\<lambda>t. template_id t = tid) (userTemplates ?s) = Some template"
    and fetched: "fetch e (getImageUrl e (template_image_url template)) = Inr resp"
    and read: "blob resp = Inr b"
    and f: "f = \<lparr>blob_bytes = blob_bytes b, blob_type = blob_type b,
          file_name = lit ''template.png''\<rparr>"
    and evs: "snd (fetchTemplateFile e (userTemplates ?s) tid) =
          [Fetch (getImageUrl e (template_image_url template))]"
    by blast
  from found have mem: "template \<in> set (userTemplates ?s)" and tid: "template_id template = tid"
    by (auto simp: find_Some_iff)
  have "fetches (fst (handleSubmit e ?s st')) = [getImageUrl e (template_image_url template)]"
    by (simp add: fetches_valid [OF valid] built evs)
  with mem tid saved fetched read f
  show "\<exists>template resp b.
         template \<in> set (userTemplates ?s) \<and>
         selectedTemplateId ?s = Some (template_id template) \<and>
         fetches (fst (handleSubmit e ?s st')) =
           [getImageUrl e (template_image_url template)] \<and>
         fetch e (getImageUrl e (template_image_url template)) = Inr resp \<and>
         blob resp = Inr b \<and>
         f = \<lparr>blob_bytes = blob_bytes b, blob_type = blob_type b,
              file_name = lit ''template.png''\<rparr>"
    by blast
qed

theorem local_file_unreachable_witness:
  "selectedTemplate (comp (run session (start Map.empty))) = None \<and>
   (Idea, lit ''AI history talk'',
      Some \<lparr>blob_bytes = [255, 216, 255], blob_type = lit ''image/jpeg'',
            file_name = lit ''template.png''\<rparr>)
     \<in> set (project_calls (fst (handleSubmit env_ok (comp (run session (start Map.empty)))
          Map.empty))) \<and>
   (\<exists>template resp b.
      template \<in> set (userTemplates (comp (run session (start Map.empty)))) \<and>
      fetches (fst (handleSubmit env_ok (comp (run session (start Map.empty))) Map.empty)) =
        [getImageUrl env_ok (template_image_url template)] \<and>
      fetch env_ok (getImageUrl env_ok (template_image_url template)) = Inr resp \<and>
      blob resp = Inr b \<and>
      \<lparr>blob_bytes = [255, 216, 255], blob_type = lit ''image/jpeg'',
       file_name = lit ''template.png''\<rparr> =
      \<lparr>blob_bytes = blob_bytes b, blob_type = blob_type b, file_name = lit ''template.png''\<rparr>)"
proof -
  let ?s = "comp (run session (start Map.empty))"
  let ?f = "\<lparr>blob_bytes = [255, 216, 255], blob_type = lit ''image/jpeg'',
            file_name = lit ''template.png''\<rparr>"
  have valid: "trim (content ?s) \<noteq> []"
    using home_idea_valid by (simp add: session_state home_idea_def initial_def)
  have "fst (templateFile env_ok ?s) = Some ?f"
    by (simp add: session_state templateFile_def fetchTemplateFile_def truthy_str_def
        env_ok_def t2_def jpeg_blob_def lit_def)
  then have call: "(Idea, lit ''AI history talk'', Some ?f)
      \<in> set (project_calls (fst (handleSubmit env_ok ?s Map.empty)))"
    by (simp add: project_calls_valid [OF valid]) (simp add: session_state)
  from local_file_unreachable [of session Map.empty env_ok Map.empty] call
  show ?thesis by blast
qed

end
